theory Spec2Isabelle
  imports Main "HOL-Library.Word"
begin

unbundle bit_operations_syntax

section \<open>Go strings\<close>

text \<open>
  A Go string is a sequence of bytes, so it is a \<open>string\<close> (a \<open>char list\<close>) here.
  The functions of package \<open>strings\<close> that the engine calls are modelled on their
  ASCII paths: \<open>strings.ToLower\<close> maps the bytes \<open>A..Z\<close> to \<open>a..z\<close> and
  \<open>strings.TrimSpace\<close> cuts the bytes tab, line feed, vertical tab, form feed,
  carriage return and space from both ends (the table \<open>asciiSpace\<close> of the Go
  library). Bytes from 0x80 on are left alone by both functions in this model.
\<close>

definition newline :: char where
  "newline = CHR 0x0A"

definition asciiSpace :: "char \<Rightarrow> bool" where
  "asciiSpace c \<longleftrightarrow>
     c = CHR 0x09 \<or> c = CHR 0x0A \<or> c = CHR 0x0B \<or> c = CHR 0x0C \<or> c = CHR 0x0D \<or> c = CHR 0x20"

definition strings_TrimSpace :: "string \<Rightarrow> string" where
  "strings_TrimSpace s = rev (dropWhile asciiSpace (rev (dropWhile asciiSpace s)))"

definition isUpper :: "char \<Rightarrow> bool" where
  "isUpper c \<longleftrightarrow> (65::nat) \<le> of_char c \<and> (of_char c :: nat) \<le> 90"

definition toLower :: "char \<Rightarrow> char" where
  "toLower c = (if isUpper c then char_of (of_char c + (32::nat)) else c)"

definition strings_ToLower :: "string \<Rightarrow> string" where
  "strings_ToLower s = map toLower s"

definition strings_HasPrefix :: "string \<Rightarrow> string \<Rightarrow> bool" where
  "strings_HasPrefix s pre \<longleftrightarrow> length pre \<le> length s \<and> take (length pre) s = pre"

text \<open>\<open>strings.Split(s, sep)\<close> for a separator of one byte: one more piece than there
  are separators in \<open>s\<close>, so the empty string has the one piece \<open>''''\<close>.\<close>

fun strings_Split :: "string \<Rightarrow> char \<Rightarrow> string list" where
  "strings_Split [] sep = [[]]"
| "strings_Split (c # cs) sep =
     (if c = sep then [] # strings_Split cs sep
      else (case strings_Split cs sep of
              [] \<Rightarrow> [[c]]
            | piece # pieces \<Rightarrow> (c # piece) # pieces))"

section \<open>Errors\<close>

text \<open>
  Every \<open>fmt.Errorf\<close> of the source is a constructor; a constructor that takes an
  \<open>error\<close> wraps its cause (the verb \<open>%w\<close>). \<open>ExternalError\<close> is an error raised by
  a collaborator: the SQL driver, the HTTP client, the readability parser, the
  discovery package.
\<close>

datatype error =
    ExternalError string
  | ErrCreateRequest error
  | ErrHttpGet string error
  | ErrUnexpectedStatus nat string
  | ErrReadability string error
  | ErrCacheGet string error
  | ErrCacheSet string error
  | ErrCacheClear error
  | ErrEngineCacheGet error
  | ErrEngineSearch error
  | ErrEngineNoResults string
  | ErrEngineAllFailed string
  | ErrEngineCacheSet error
  | ErrEngineClearCache error

section \<open>The cache (package cache)\<close>

text \<open>
  Times are nanoseconds since the epoch. The table \<open>cache\<close> has the primary key
  \<open>query_hash\<close>, so it is a map from the key to the rest of the row. \<open>db_error\<close>
  is the error with which the database handle fails every statement (a closed
  handle, an I/O failure), \<open>None\<close> for a working handle.
\<close>

type_synonym time = int

definition cacheTTL :: int where
  "cacheTTL = 24 * (3600 * 1000000000)"

record row =
  content :: string
  updated_at :: time

record Cache =
  table :: "string \<rightharpoonup> row"
  db_error :: "error option"

text \<open>SQLite's \<open>CURRENT_TIMESTAMP\<close> is the current time cut to whole seconds.\<close>

definition CURRENT_TIMESTAMP :: "time \<Rightarrow> time" where
  "CURRENT_TIMESTAMP now = now - now mod 1000000000"

text \<open>\<open>Cache.Get\<close>, called when the clock reads \<open>now\<close>. The result is the pair
  \<open>(content, hit)\<close>, or the error. \<open>time.Since(updatedAt)\<close> is \<open>now - updated_at\<close>;
  Go cuts it at the largest duration (about 292 years), which does not change
  its comparison with 24 hours. \<open>Get\<close> only selects: it returns no new cache.\<close>

definition Cache_Get :: "Cache \<Rightarrow> time \<Rightarrow> string \<Rightarrow> error + (string \<times> bool)" where
  "Cache_Get c now queryHash =
     (case db_error c of
        Some err \<Rightarrow> Inl (ErrCacheGet queryHash err)
      | None \<Rightarrow>
          (case table c queryHash of
             None \<Rightarrow> Inr ([], False)
           | Some r \<Rightarrow>
               if now - updated_at r > cacheTTL then Inr ([], False)
               else Inr (content r, True)))"

text \<open>\<open>Cache.Set\<close>, called when the clock reads \<open>now\<close>: the returned error
  (\<open>None\<close> is Go's \<open>nil\<close>) and the cache after the call.\<close>

definition Cache_Set :: "Cache \<Rightarrow> time \<Rightarrow> string \<Rightarrow> string \<Rightarrow> error option \<times> Cache" where
  "Cache_Set c now queryHash cont =
     (case db_error c of
        Some err \<Rightarrow> (Some (ErrCacheSet queryHash err), c)
      | None \<Rightarrow>
          (None, c\<lparr>table := (table c)(queryHash \<mapsto>
                     \<lparr>content = cont, updated_at = CURRENT_TIMESTAMP now\<rparr>)\<rparr>))"


section \<open>SHA-256 (crypto/sha256) and the verb %x\<close>

text \<open>
  \<open>sha256.Sum256\<close> is the hash function SHA-256 of FIPS 180-4 over the bytes of
  its argument; its result is an array of 32 bytes. Words are 32 bits wide and
  addition wraps.
\<close>

type_synonym byte = "8 word"
type_synonym word32 = "32 word"

text \<open>
  The 64 round constants of FIPS 180-4, section 4.2.2 (the first 32 bits of the
  fractional parts of the cube roots of the first 64 primes), in decimal.
\<close>

definition K256 :: "word32 list" where
  "K256 =
     [1116352408, 1899447441, 3049323471, 3921009573, 961987163, 1508970993,
      2453635748, 2870763221, 3624381080, 310598401, 607225278, 1426881987,
      1925078388, 2162078206, 2614888103, 3248222580, 3835390401, 4022224774,
      264347078, 604807628, 770255983, 1249150122, 1555081692, 1996064986,
      2554220882, 2821834349, 2952996808, 3210313671, 3336571891, 3584528711,
      113926993, 338241895, 666307205, 773529912, 1294757372, 1396182291,
      1695183700, 1986661051, 2177026350, 2456956037, 2730485921, 2820302411,
      3259730800, 3345764771, 3516065817, 3600352804, 4094571909, 275423344,
      430227734, 506948616, 659060556, 883997877, 958139571, 1322822218,
      1537002063, 1747873779, 1955562222, 2024104815, 2227730452, 2361852424,
      2428436474, 2756734187, 3204031479, 3329325298]"

record sha_state =
  h0 :: word32
  h1 :: word32
  h2 :: word32
  h3 :: word32
  h4 :: word32
  h5 :: word32
  h6 :: word32
  h7 :: word32

definition sha_init :: sha_state where
  "sha_init = \<lparr>h0 = 0x6a09e667, h1 = 0xbb67ae85, h2 = 0x3c6ef372, h3 = 0xa54ff53a,
               h4 = 0x510e527f, h5 = 0x9b05688c, h6 = 0x1f83d9ab, h7 = 0x5be0cd19\<rparr>"

definition rotr :: "nat \<Rightarrow> word32 \<Rightarrow> word32" where
  "rotr n x = word_rotr n x"

definition Ch :: "word32 \<Rightarrow> word32 \<Rightarrow> word32 \<Rightarrow> word32" where
  "Ch x y z = (x AND y) XOR (NOT x AND z)"

definition Maj :: "word32 \<Rightarrow> word32 \<Rightarrow> word32 \<Rightarrow> word32" where
  "Maj x y z = (x AND y) XOR (x AND z) XOR (y AND z)"

definition bsig0 :: "word32 \<Rightarrow> word32" where
  "bsig0 x = rotr 2 x XOR rotr 13 x XOR rotr 22 x"

definition bsig1 :: "word32 \<Rightarrow> word32" where
  "bsig1 x = rotr 6 x XOR rotr 11 x XOR rotr 25 x"

definition ssig0 :: "word32 \<Rightarrow> word32" where
  "ssig0 x = rotr 7 x XOR rotr 18 x XOR drop_bit 3 x"

definition ssig1 :: "word32 \<Rightarrow> word32" where
  "ssig1 x = rotr 17 x XOR rotr 19 x XOR drop_bit 10 x"

text \<open>The padded message: the bytes, the byte 0x80, zero bytes up to 56 modulo 64,
  and the length in bits as 8 bytes, most significant first.\<close>

definition be64 :: "nat \<Rightarrow> byte list" where
  "be64 n = map (\<lambda>i. ucast (drop_bit (8 * i) (of_nat n :: 64 word))) [7, 6, 5, 4, 3, 2, 1, 0]"

definition sha_pad :: "byte list \<Rightarrow> byte list" where
  "sha_pad m =
     m @ [0x80] @ replicate ((119 - length m mod 64) mod 64) 0 @ be64 (8 * length m)"

definition sha_blocks :: "byte list \<Rightarrow> byte list list" where
  "sha_blocks bs = map (\<lambda>i. take 64 (drop (64 * i) bs)) [0..<length bs div 64]"

definition be32 :: "byte list \<Rightarrow> word32" where
  "be32 bs = push_bit 24 (ucast (bs ! 0)) OR push_bit 16 (ucast (bs ! 1))
               OR push_bit 8 (ucast (bs ! 2)) OR ucast (bs ! 3)"

definition block_words :: "byte list \<Rightarrow> word32 list" where
  "block_words b = map (\<lambda>i. be32 (take 4 (drop (4 * i) b))) [0..<16]"

fun schedule_ext :: "nat \<Rightarrow> word32 list \<Rightarrow> word32 list" where
  "schedule_ext 0 w = w"
| "schedule_ext (Suc n) w =
     (let t = length w
      in schedule_ext n
           (w @ [ssig1 (w ! (t - 2)) + w ! (t - 7) + ssig0 (w ! (t - 15)) + w ! (t - 16)]))"

definition sha_round :: "sha_state \<Rightarrow> word32 \<times> word32 \<Rightarrow> sha_state" where
  "sha_round s kw =
     (let t1 = h7 s + bsig1 (h4 s) + Ch (h4 s) (h5 s) (h6 s) + fst kw + snd kw;
          t2 = bsig0 (h0 s) + Maj (h0 s) (h1 s) (h2 s)
      in \<lparr>h0 = t1 + t2, h1 = h0 s, h2 = h1 s, h3 = h2 s,
          h4 = h3 s + t1, h5 = h4 s, h6 = h5 s, h7 = h6 s\<rparr>)"

definition sha_compress :: "sha_state \<Rightarrow> byte list \<Rightarrow> sha_state" where
  "sha_compress s b =
     (let w = schedule_ext 48 (block_words b);
          r = foldl sha_round s (zip K256 w)
      in \<lparr>h0 = h0 s + h0 r, h1 = h1 s + h1 r, h2 = h2 s + h2 r, h3 = h3 s + h3 r,
          h4 = h4 s + h4 r, h5 = h5 s + h5 r, h6 = h6 s + h6 r, h7 = h7 s + h7 r\<rparr>)"

definition word_bytes :: "word32 \<Rightarrow> byte list" where
  "word_bytes w = [ucast (drop_bit 24 w), ucast (drop_bit 16 w), ucast (drop_bit 8 w), ucast w]"

definition sha256_Sum256 :: "byte list \<Rightarrow> byte list" where
  "sha256_Sum256 m =
     (let s = foldl sha_compress sha_init (sha_blocks (sha_pad m))
      in concat (map word_bytes [h0 s, h1 s, h2 s, h3 s, h4 s, h5 s, h6 s, h7 s]))"

text \<open>\<open>fmt.Sprintf("%x", h)\<close> of a byte array: two lower-case hexadecimal digits for
  each byte.\<close>

definition hexdigit :: "nat \<Rightarrow> char" where
  "hexdigit n = ''0123456789abcdef'' ! n"

definition hex_byte :: "byte \<Rightarrow> string" where
  "hex_byte b = [hexdigit (unat b div 16), hexdigit (unat b mod 16)]"

definition Sprintf_x :: "byte list \<Rightarrow> string" where
  "Sprintf_x bs = concat (map hex_byte bs)"

definition bytes_of :: "string \<Rightarrow> byte list" where
  "bytes_of s = map of_char s"


section \<open>The engine's helpers (package engine)\<close>

text \<open>\<open>queryHash\<close>, \<open>consolidate\<close> and \<open>countSections\<close>, with \<open>scraper.ScrapedPage\<close>.\<close>

definition queryHash :: "string \<Rightarrow> string" where
  "queryHash query =
     (let normalized = strings_TrimSpace (strings_ToLower query);
          h = sha256_Sum256 (bytes_of normalized)
      in Sprintf_x h)"

record ScrapedPage =
  URL :: string
  Content :: string
  Err :: "error option"

text \<open>The loop of \<open>consolidate\<close> over the pages, with the builder \<open>b\<close> and the
  counter \<open>count\<close> as its state.\<close>

fun consolidate_loop :: "ScrapedPage list \<Rightarrow> string \<Rightarrow> int \<Rightarrow> string \<times> int" where
  "consolidate_loop [] b count = (b, count)"
| "consolidate_loop (p # pages) b count =
     (if Err p \<noteq> None \<or> strings_TrimSpace (Content p) = [] then
        consolidate_loop pages b count
      else
        let b1 = (if count > 0 then b @ ''\<newline>\<newline>---\<newline>\<newline>'' else b);
            count1 = count + 1;
            b2 = b1 @ ''## '' @ URL p @ ''\<newline>\<newline>'' @ strings_TrimSpace (Content p)
        in consolidate_loop pages b2 count1)"

definition consolidate :: "ScrapedPage list \<Rightarrow> string \<times> int" where
  "consolidate pages = consolidate_loop pages [] 0"

fun countSections_loop :: "string list \<Rightarrow> int \<Rightarrow> int" where
  "countSections_loop [] count = count"
| "countSections_loop (line # lines) count =
     (if strings_HasPrefix line ''## '' then countSections_loop lines (count + 1)
      else countSections_loop lines count)"

definition countSections :: "string \<Rightarrow> int" where
  "countSections cont = countSections_loop (strings_Split cont newline) 0"

section \<open>The scraper (package scraper)\<close>

text \<open>
  What the HTTP client and the readability parser do with a URL is outside the
  program: \<open>BadRequest\<close> is a URL that \<open>http.NewRequestWithContext\<close> refuses,
  \<open>TransportError\<close> a failing \<open>client.Do\<close> (a timeout or a cancelled context
  too), \<open>Response status body\<close> a response with its status code and with what
  \<open>readability.FromReader\<close> makes of its body.
\<close>

datatype http_outcome =
    BadRequest error
  | TransportError error
  | Response nat "error + string"

type_synonym http_client = "string \<Rightarrow> http_outcome"

definition scrapeSingle :: "http_client \<Rightarrow> string \<Rightarrow> string \<times> error option" where
  "scrapeSingle client rawURL =
     (case client rawURL of
        BadRequest err \<Rightarrow> ([], Some (ErrCreateRequest err))
      | TransportError err \<Rightarrow> ([], Some (ErrHttpGet rawURL err))
      | Response status body \<Rightarrow>
          if status \<noteq> 200 then ([], Some (ErrUnexpectedStatus status rawURL))
          else (case body of
                  Inl err \<Rightarrow> ([], Some (ErrReadability rawURL err))
                | Inr text \<Rightarrow> (text, None)))"

text \<open>
  \<open>Scrape\<close> starts one goroutine for each pair \<open>(idx, rawURL)\<close> of the input and
  waits for all of them. The goroutine of index \<open>idx\<close> sees the network as
  \<open>net idx\<close> and writes its page into slot \<open>idx\<close> of \<open>results\<close>.
  \<open>Scrape_join\<close> performs these writes in the order in which the goroutines
  finish; \<open>Scrape\<close> is the run where they finish in the order of the input.
\<close>

definition zeroPage :: ScrapedPage where
  "zeroPage = \<lparr>URL = [], Content = [], Err = None\<rparr>"

definition Scrape_task :: "(nat \<Rightarrow> http_client) \<Rightarrow> nat \<Rightarrow> string \<Rightarrow> ScrapedPage" where
  "Scrape_task net idx rawURL =
     (let (cont, err) = scrapeSingle (net idx) rawURL
      in \<lparr>URL = rawURL, Content = cont, Err = err\<rparr>)"

fun Scrape_join ::
  "(nat \<Rightarrow> http_client) \<Rightarrow> (nat \<times> string) list \<Rightarrow> ScrapedPage list \<Rightarrow> ScrapedPage list" where
  "Scrape_join net [] results = results"
| "Scrape_join net ((idx, rawURL) # finished) results =
     Scrape_join net finished (results[idx := Scrape_task net idx rawURL])"

definition Scrape_tasks :: "string list \<Rightarrow> (nat \<times> string) list" where
  "Scrape_tasks urls = zip [0..<length urls] urls"

definition Scrape_order ::
  "(nat \<Rightarrow> http_client) \<Rightarrow> string list \<Rightarrow> (nat \<times> string) list \<Rightarrow> ScrapedPage list" where
  "Scrape_order net urls finished =
     Scrape_join net finished (replicate (length urls) zeroPage)"

definition Scrape :: "(nat \<Rightarrow> http_client) \<Rightarrow> string list \<Rightarrow> ScrapedPage list" where
  "Scrape net urls = Scrape_order net urls (Scrape_tasks urls)"

section \<open>The engine (package engine)\<close>

text \<open>
  \<open>search.Result\<close>, \<open>engine.Config\<close> and \<open>engine.SearchResult\<close>. The field \<open>URL\<close>
  of a result is \<open>Result_URL\<close> here and the field \<open>Content\<close> of a search result is
  \<open>ResultContent\<close>, since \<open>ScrapedPage\<close> has fields of these names. Go's \<open>int\<close> is
  \<open>int\<close>: the counters count elements of slices in memory and cannot overflow.
\<close>

record Result =
  Result_URL :: string
  Title :: string

record Config =
  SearchEngine :: string
  RateLimit :: int

record SearchResult =
  ResultContent :: string
  ResultCount :: int
  FromCache :: bool

text \<open>
  The world of one call of \<open>Engine.Search\<close>: the discovery function
  \<open>search.Search\<close> (an outside collaborator, given the query, the count and the
  engine's name), the network of the scraper, and the clock at the cache read
  and at the cache write.
\<close>

record Env =
  search_Search :: "string \<Rightarrow> int \<Rightarrow> string \<Rightarrow> error + Result list"
  network :: "nat \<Rightarrow> http_client"
  now_read :: time
  now_write :: time

text \<open>What a call does to the outside, in order.\<close>

datatype event =
    EvCacheGet string
  | EvSearch string int string
  | EvSleep int
  | EvScrape "string list"
  | EvCacheSet string string

text \<open>Steps 2 to 5 of \<open>Engine.Search\<close>: discovery, the rate-limit wait, the fetch,
  consolidation and the upsert. The result is the returned value or error (with
  an error Go returns the zero \<open>SearchResult\<close>), the cache after the call and the
  events of the call.\<close>

definition Search_fetch ::
  "Config \<Rightarrow> Env \<Rightarrow> Cache \<Rightarrow> string \<Rightarrow> int \<Rightarrow> string \<Rightarrow>
     (error + SearchResult) \<times> Cache \<times> event list" where
  "Search_fetch cfg env c query count hash =
     (case search_Search env query count (SearchEngine cfg) of
        Inl err \<Rightarrow> (Inl (ErrEngineSearch err), c, [EvSearch query count (SearchEngine cfg)])
      | Inr results \<Rightarrow>
          if length results = 0 then
            (Inl (ErrEngineNoResults query), c, [EvSearch query count (SearchEngine cfg)])
          else
            let urls = map Result_URL results;
                pages = Scrape (network env) urls;
                (cont, resultCount) = consolidate pages;
                tr = [EvSearch query count (SearchEngine cfg)]
                       @ (if RateLimit cfg > 0 then [EvSleep (RateLimit cfg)] else [])
                       @ [EvScrape urls]
            in if cont = [] then (Inl (ErrEngineAllFailed query), c, tr)
               else
                 (case Cache_Set c (now_write env) hash cont of
                    (Some err, c') \<Rightarrow>
                      (Inl (ErrEngineCacheSet err), c', tr @ [EvCacheSet hash cont])
                  | (None, c') \<Rightarrow>
                      (Inr \<lparr>ResultContent = cont, ResultCount = resultCount, FromCache = False\<rparr>,
                       c', tr @ [EvCacheSet hash cont])))"

text \<open>\<open>Engine.Search\<close>: step 1, the cache check, which \<open>force\<close> skips, and then the
  steps above.\<close>

definition Search ::
  "Config \<Rightarrow> Env \<Rightarrow> Cache \<Rightarrow> string \<Rightarrow> int \<Rightarrow> bool \<Rightarrow>
     (error + SearchResult) \<times> Cache \<times> event list" where
  "Search cfg env c query count force =
     (let hash = queryHash query
      in if \<not> force then
           (case Cache_Get c (now_read env) hash of
              Inl err \<Rightarrow> (Inl (ErrEngineCacheGet err), c, [EvCacheGet hash])
            | Inr (cont, hit) \<Rightarrow>
                if hit then
                  (Inr \<lparr>ResultContent = cont, ResultCount = countSections cont, FromCache = True\<rparr>,
                   c, [EvCacheGet hash])
                else
                  let (res, c', tr) = Search_fetch cfg env c query count hash
                  in (res, c', EvCacheGet hash # tr))
         else Search_fetch cfg env c query count hash)"


text \<open>The events of a run that reaches the fetch, up to the fetch.\<close>

definition fetch_events :: "Config \<Rightarrow> string \<Rightarrow> int \<Rightarrow> string list \<Rightarrow> event list" where
  "fetch_events cfg query count urls =
     [EvSearch query count (SearchEngine cfg)]
       @ (if RateLimit cfg > 0 then [EvSleep (RateLimit cfg)] else [])
       @ [EvScrape urls]"

section \<open>Test fixtures\<close>

text \<open>
  The run of the integration test: discovery finds two articles, which the
  network serves; \<open>down_env\<close> is the same with the content server down,
  \<open>empty_env\<close> the same with a discovery that finds nothing; \<open>warm_cache\<close> holds
  a fresh row under the key of the test's query.
\<close>

definition test_results :: "Result list" where
  "test_results =
     [\<lparr>Result_URL = ''http://h/article/1'', Title = ''Result 1''\<rparr>,
      \<lparr>Result_URL = ''http://h/article/2'', Title = ''Result 2''\<rparr>]"

definition test_config :: Config where
  "test_config = \<lparr>SearchEngine = ''google'', RateLimit = 0\<rparr>"

definition test_network :: "nat \<Rightarrow> http_client" where
  "test_network idx rawURL =
     (if rawURL = ''http://h/article/1'' then Response 200 (Inr ''Goroutines...'')
      else if rawURL = ''http://h/article/2'' then Response 200 (Inr ''Table-driven tests...'')
      else Response 404 (Inr []))"

definition test_env :: Env where
  "test_env = \<lparr>search_Search = (\<lambda>query count engine. Inr test_results),
               network = test_network, now_read = 1000, now_write = 2000\<rparr>"


definition empty_env :: Env where
  "empty_env = test_env\<lparr>search_Search := (\<lambda>query count engine. Inr [])\<rparr>"

definition empty_cache :: Cache where
  "empty_cache = \<lparr>table = Map.empty, db_error = None\<rparr>"

definition warm_cache :: Cache where
  "warm_cache =
     \<lparr>table = [queryHash ''golang concurrency'' \<mapsto> \<lparr>content = ''cached'', updated_at = 0\<rparr>],
      db_error = None\<rparr>"

section \<open>Notions of the specification\<close>












section \<open>Properties of the cache\<close>

lemma CURRENT_TIMESTAMP_le: "CURRENT_TIMESTAMP now \<le> now"
  by (simp add: CURRENT_TIMESTAMP_def)

lemma CURRENT_TIMESTAMP_fresh: "now - CURRENT_TIMESTAMP now \<le> cacheTTL"
proof -
  have "now mod 1000000000 < 1000000000"
    by simp
  then show ?thesis
    by (simp add: CURRENT_TIMESTAMP_def cacheTTL_def)
qed

text \<open>
  Claim C1. On a working database handle: \<open>Get\<close> of a key right after \<open>Set\<close> of that
  key with content \<open>v\<close> returns \<open>(v, true)\<close>, and so does every later \<open>Get\<close> whose
  clock is within the TTL of the stored timestamp; a stored row older than the
  24-hour TTL gives \<open>hit = false\<close> although the row is in the table; an absent
  key gives \<open>hit = false\<close>. So \<open>Get\<close> reports a hit exactly when the row exists and
  \<open>now - updated_at \<le> TTL\<close> at the time of the read.
\<close>

theorem Cache_Get_hit_iff_fresh:
  assumes "db_error c = None"
  shows "Cache_Get (snd (Cache_Set c now k v)) now k = Inr (v, True) \<and>
         (t - CURRENT_TIMESTAMP now \<le> cacheTTL \<longrightarrow>
            Cache_Get (snd (Cache_Set c now k v)) t k = Inr (v, True)) \<and>
         (table c k = Some r \<and> t' - updated_at r > cacheTTL \<longrightarrow>
            Cache_Get c t' k = Inr ([], False)) \<and>
         (table c k = None \<longrightarrow> Cache_Get c t' k = Inr ([], False)) \<and>
         (\<exists>cont hit. Cache_Get c t' k = Inr (cont, hit) \<and>
            (hit \<longleftrightarrow> (\<exists>r. table c k = Some r \<and> t' - updated_at r \<le> cacheTTL)) \<and>
            (hit \<longrightarrow> (\<exists>r. table c k = Some r \<and> cont = content r)))"
proof -
  have fresh: "Cache_Get (snd (Cache_Set c now k v)) now k = Inr (v, True)"
    using assms CURRENT_TIMESTAMP_fresh [of now]
    by (simp add: Cache_Get_def Cache_Set_def)
  have later: "t - CURRENT_TIMESTAMP now \<le> cacheTTL \<longrightarrow>
          Cache_Get (snd (Cache_Set c now k v)) t k = Inr (v, True)"
    using assms by (simp add: Cache_Get_def Cache_Set_def)
  have stale: "table c k = Some r \<and> t' - updated_at r > cacheTTL \<longrightarrow>
          Cache_Get c t' k = Inr ([], False)"
    using assms by (simp add: Cache_Get_def)
  have absent: "table c k = None \<longrightarrow> Cache_Get c t' k = Inr ([], False)"
    using assms by (simp add: Cache_Get_def)
  have iff: "\<exists>cont hit. Cache_Get c t' k = Inr (cont, hit) \<and>
          (hit \<longleftrightarrow> (\<exists>r. table c k = Some r \<and> t' - updated_at r \<le> cacheTTL)) \<and>
          (hit \<longrightarrow> (\<exists>r. table c k = Some r \<and> cont = content r))"
    using assms by (cases "table c k") (auto simp add: Cache_Get_def)
  from fresh later stale absent iff show ?thesis
    by blast
qed

text \<open>The theorem at a cache that holds one row written at time 0, read 25 hours
  later, overwritten at 7 nanoseconds past second 5, and read at an absent key.\<close>

theorem Cache_Get_hit_iff_fresh_witness:
  "db_error \<lparr>table = [''k1'' \<mapsto> \<lparr>content = ''old'', updated_at = 0\<rparr>], db_error = None\<rparr> = None \<and>
   (6000000000 - CURRENT_TIMESTAMP 5000000007 \<le> cacheTTL) \<and>
   table \<lparr>table = [''k1'' \<mapsto> \<lparr>content = ''old'', updated_at = 0\<rparr>], db_error = None\<rparr> ''k1''
     = Some \<lparr>content = ''old'', updated_at = 0\<rparr> \<and>
   90000000000000 - updated_at \<lparr>content = ''old'', updated_at = 0\<rparr> > cacheTTL \<and>
   Cache_Get (snd (Cache_Set
       \<lparr>table = [''k1'' \<mapsto> \<lparr>content = ''old'', updated_at = 0\<rparr>], db_error = None\<rparr>
       5000000007 ''k1'' ''doc'')) 6000000000 ''k1'' = Inr (''doc'', True) \<and>
   Cache_Get \<lparr>table = [''k1'' \<mapsto> \<lparr>content = ''old'', updated_at = 0\<rparr>], db_error = None\<rparr>
       90000000000000 ''k1'' = Inr ([], False) \<and>
   table \<lparr>table = [''k1'' \<mapsto> \<lparr>content = ''old'', updated_at = 0\<rparr>], db_error = None\<rparr> ''k0''
     = None \<and>
   Cache_Get \<lparr>table = [''k1'' \<mapsto> \<lparr>content = ''old'', updated_at = 0\<rparr>], db_error = None\<rparr>
       6000000000 ''k0'' = Inr ([], False)"
  using Cache_Get_hit_iff_fresh
    [of "\<lparr>table = [''k1'' \<mapsto> \<lparr>content = ''old'', updated_at = 0\<rparr>], db_error = None\<rparr>"
        5000000007 "''k1''" "''doc''" 6000000000
        "\<lparr>content = ''old'', updated_at = 0\<rparr>" 90000000000000]
    Cache_Get_hit_iff_fresh
    [of "\<lparr>table = [''k1'' \<mapsto> \<lparr>content = ''old'', updated_at = 0\<rparr>], db_error = None\<rparr>"
        5000000007 "''k0''" "''doc''" 6000000000
        "\<lparr>content = ''old'', updated_at = 0\<rparr>" 6000000000]
  by (simp add: CURRENT_TIMESTAMP_def cacheTTL_def)

section \<open>Consolidation\<close>







section \<open>Counting section headers\<close>



















section \<open>The scraper returns one page for each URL\<close>

lemma Scrape_join_nth:
  "distinct (map fst ts) \<Longrightarrow> \<forall>(i, u) \<in> set ts. i < length rs \<Longrightarrow>
   length (Scrape_join net ts rs) = length rs \<and>
   (\<forall>j < length rs. Scrape_join net ts rs ! j =
      (case map_of ts j of Some u \<Rightarrow> Scrape_task net j u | None \<Rightarrow> rs ! j))"
proof (induction ts arbitrary: rs)
  case Nil
  then show ?case by simp
next
  case (Cons t ts)
  obtain i u where t: "t = (i, u)"
    by (cases t)
  let ?rs = "rs[i := Scrape_task net i u]"
  have d: "distinct (map fst ts)" and fresh: "i \<notin> fst ` set ts" and i: "i < length rs"
    using Cons.prems t by auto
  have bound: "\<forall>(i, u) \<in> set ts. i < length ?rs"
    using Cons.prems(2) by auto
  note IH = Cons.IH [OF d bound]
  have none: "map_of ts i = None"
    using fresh by (simp add: map_of_eq_None_iff)
  show ?case
    using IH i none by (auto simp add: t nth_list_update split: option.splits)
qed

lemma map_of_Scrape_tasks:
  "j < length urls \<Longrightarrow> map_of (Scrape_tasks urls) j = Some (urls ! j)"
  using map_of_zip_nth [of "[0..<length urls]" urls j]
  by (simp add: Scrape_tasks_def)

lemma fst_Scrape_tasks: "map fst (Scrape_tasks urls) = [0..<length urls]"
  by (simp add: Scrape_tasks_def)

lemma Scrape_order_eq:
  assumes "distinct finished" and "set finished = set (Scrape_tasks urls)"
  shows "Scrape_order net urls finished
           = map (\<lambda>i. Scrape_task net i (urls ! i)) [0..<length urls]"
proof -
  have "distinct (map fst (Scrape_tasks urls))"
    by (simp add: fst_Scrape_tasks)
  then have "inj_on fst (set finished)"
    unfolding assms(2) by (simp add: distinct_map)
  then have d: "distinct (map fst finished)"
    using assms(1) by (simp add: distinct_map)
  have m: "map_of finished = map_of (Scrape_tasks urls)"
    using d assms(2) by (simp add: map_of_inject_set fst_Scrape_tasks)
  have bound: "\<forall>(i, u) \<in> set finished. i < length (replicate (length urls) zeroPage)"
    unfolding assms(2) by (auto simp add: Scrape_tasks_def dest: set_zip_leftD)
  note J = Scrape_join_nth [OF d bound, of net]
  show ?thesis
    by (rule nth_equalityI)
       (use J in \<open>simp_all add: Scrape_order_def m map_of_Scrape_tasks\<close>)
qed

lemma distinct_Scrape_tasks: "distinct (Scrape_tasks urls)"
  using distinct_map [of fst "Scrape_tasks urls"] by (simp add: fst_Scrape_tasks)

lemma Scrape_eq: "Scrape net urls = map (\<lambda>i. Scrape_task net i (urls ! i)) [0..<length urls]"
  by (simp add: Scrape_def Scrape_order_eq distinct_Scrape_tasks)





section \<open>The cache key\<close>
























section \<open>Eviction\<close>








section \<open>The pipeline\<close>




lemma Search_force: "Search cfg env c query count True = Search_fetch cfg env c query count (queryHash query)"
  by (simp add: Search_def)

lemma Search_miss:
  "Cache_Get c (now_read env) (queryHash query) = Inr (cont, False) \<Longrightarrow>
   Search cfg env c query count False =
     (fst (Search_fetch cfg env c query count (queryHash query)),
      fst (snd (Search_fetch cfg env c query count (queryHash query))),
      EvCacheGet (queryHash query) # snd (snd (Search_fetch cfg env c query count (queryHash query))))"
  by (simp add: Search_def Let_def split: prod.splits)


lemma Search_get_error:
  "Cache_Get c (now_read env) (queryHash query) = Inl err \<Longrightarrow>
   Search cfg env c query count False =
     (Inl (ErrEngineCacheGet err), c, [EvCacheGet (queryHash query)])"
  by (simp add: Search_def)


lemma Search_fetch_no_results:
  "search_Search env query count (SearchEngine cfg) = Inr [] \<Longrightarrow>
   Search_fetch cfg env c query count hash =
     (Inl (ErrEngineNoResults query), c, [EvSearch query count (SearchEngine cfg)])"
  by (simp add: Search_fetch_def)


lemma Search_fetch_stored:
  assumes "search_Search env query count (SearchEngine cfg) = Inr results" and "results \<noteq> []"
    and "fst (consolidate (Scrape (network env) (map Result_URL results))) \<noteq> []"
  shows "Search_fetch cfg env c query count hash =
     (let pages = Scrape (network env) (map Result_URL results);
          tr = fetch_events cfg query count (map Result_URL results)
                 @ [EvCacheSet hash (fst (consolidate pages))]
      in case db_error c of
           Some err \<Rightarrow> (Inl (ErrEngineCacheSet (ErrCacheSet hash err)), c, tr)
         | None \<Rightarrow>
             (Inr \<lparr>ResultContent = fst (consolidate pages),
                   ResultCount = snd (consolidate pages), FromCache = False\<rparr>,
              c\<lparr>table := (table c)(hash \<mapsto>
                   \<lparr>content = fst (consolidate pages),
                    updated_at = CURRENT_TIMESTAMP (now_write env)\<rparr>)\<rparr>,
              tr))"
  using assms
  by (simp add: Search_fetch_def fetch_events_def Cache_Set_def Let_def case_prod_beta
        split: option.splits)

lemma Search_fetch_no_get: "EvCacheGet k \<notin> set (snd (snd (Search_fetch cfg env c query count hash)))"
  by (simp add: Search_fetch_def Let_def case_prod_beta split: sum.splits option.splits)

lemma Search_fetch_not_cached:
  "fst (Search_fetch cfg env c query count hash) = Inr r \<Longrightarrow> \<not> FromCache r"
  by (auto simp add: Search_fetch_def Let_def case_prod_beta
        split: sum.splits option.splits if_splits)

lemma Search_fetch_first:
  "\<exists>tr. snd (snd (Search_fetch cfg env c query count hash))
           = EvSearch query count (SearchEngine cfg) # tr"
  by (simp add: Search_fetch_def Let_def case_prod_beta split: sum.splits option.splits)

lemma Search_fetch_scrapes:
  "search_Search env query count (SearchEngine cfg) = Inr results \<Longrightarrow> results \<noteq> [] \<Longrightarrow>
   EvScrape (map Result_URL results) \<in> set (snd (snd (Search_fetch cfg env c query count hash)))"
  by (simp add: Search_fetch_def Let_def case_prod_beta split: option.splits)

lemma Search_fetch_any_table:
  "fst (Search_fetch cfg env (c\<lparr>table := tb\<rparr>) query count hash)
     = fst (Search_fetch cfg env c query count hash) \<and>
   snd (snd (Search_fetch cfg env (c\<lparr>table := tb\<rparr>) query count hash))
     = snd (snd (Search_fetch cfg env c query count hash))"
  by (simp add: Search_fetch_def Cache_Set_def Let_def case_prod_beta
        split: sum.splits option.splits)

text \<open>
  Claim C2, as amended. With \<open>force = true\<close>, \<open>Search\<close> never returns a result
  with \<open>FromCache = true\<close> and never reads the cache; it always calls discovery
  first, and it enters the fetch phase whenever discovery returns at least one
  candidate. What it returns and what it does is the same for every content of
  the cache table, so also when a fresh row is stored under the key of the query.
\<close>

theorem Search_force_skips_cache:
  "(\<forall>r. fst (Search cfg env c query count True) = Inr r \<longrightarrow> \<not> FromCache r) \<and>
   (\<forall>k. EvCacheGet k \<notin> set (snd (snd (Search cfg env c query count True)))) \<and>
   (\<exists>tr. snd (snd (Search cfg env c query count True))
            = EvSearch query count (SearchEngine cfg) # tr) \<and>
   (\<forall>results. search_Search env query count (SearchEngine cfg) = Inr results \<and> results \<noteq> []
      \<longrightarrow> EvScrape (map Result_URL results)
            \<in> set (snd (snd (Search cfg env c query count True)))) \<and>
   fst (Search cfg env (c\<lparr>table := tb\<rparr>) query count True)
     = fst (Search cfg env c query count True) \<and>
   snd (snd (Search cfg env (c\<lparr>table := tb\<rparr>) query count True))
     = snd (snd (Search cfg env c query count True))"
  unfolding Search_force
  using Search_fetch_not_cached [of cfg env c query count "queryHash query"]
    Search_fetch_no_get [of _ cfg env c query count "queryHash query"]
    Search_fetch_first [of cfg env c query count "queryHash query"]
    Search_fetch_scrapes [of env query count cfg _ c "queryHash query"]
    Search_fetch_any_table [where cfg = cfg and env = env and c = c and tb = tb
      and query = query and count = count and hash = "queryHash query"]
  by blast

text \<open>
  Claim C8. When the call reaches discovery (it is forced, or the cache read is a
  miss) and discovery succeeds with the empty list, \<open>Search\<close> fails with the error
  of no search results, leaves the cache as it was, and fetches nothing.
\<close>

theorem Search_no_candidates_fails:
  "(force \<or> Cache_Get c (now_read env) (queryHash query) = Inr ([], False)) \<and>
   search_Search env query count (SearchEngine cfg) = Inr []
   \<longrightarrow> fst (Search cfg env c query count force) = Inl (ErrEngineNoResults query) \<and>
       fst (snd (Search cfg env c query count force)) = c \<and>
       EvSearch query count (SearchEngine cfg)
         \<in> set (snd (snd (Search cfg env c query count force))) \<and>
       (\<forall>urls. EvScrape urls \<notin> set (snd (snd (Search cfg env c query count force))))"
proof (intro impI, elim conjE)
  assume reach: "force \<or> Cache_Get c (now_read env) (queryHash query) = Inr ([], False)"
    and none: "search_Search env query count (SearchEngine cfg) = Inr []"
  note F = Search_fetch_no_results [OF none, of c "queryHash query"]
  show "fst (Search cfg env c query count force) = Inl (ErrEngineNoResults query) \<and>
       fst (snd (Search cfg env c query count force)) = c \<and>
       EvSearch query count (SearchEngine cfg)
         \<in> set (snd (snd (Search cfg env c query count force))) \<and>
       (\<forall>urls. EvScrape urls \<notin> set (snd (snd (Search cfg env c query count force))))"
  proof (cases force)
    case True
    then show ?thesis
      by (simp add: Search_force F)
  next
    case False
    with reach have "Cache_Get c (now_read env) (queryHash query) = Inr ([], False)"
      by simp
    from Search_miss [OF this, of cfg count] False show ?thesis
      by (simp add: F)
  qed
qed


section \<open>The result count of a cache hit\<close>









section \<open>Runs of the pipeline\<close>

lemma test_urls:
  "map Result_URL test_results = [''http://h/article/1'', ''http://h/article/2'']"
  by (simp add: test_results_def)

lemma test_pages:
  "Scrape test_network [''http://h/article/1'', ''http://h/article/2'']
     = [\<lparr>URL = ''http://h/article/1'', Content = ''Goroutines...'', Err = None\<rparr>,
        \<lparr>URL = ''http://h/article/2'', Content = ''Table-driven tests...'', Err = None\<rparr>]"
  by (simp add: Scrape_eq Scrape_task_def scrapeSingle_def test_network_def upt_rec)

lemma test_document:
  "consolidate
     [\<lparr>URL = ''http://h/article/1'', Content = ''Goroutines...'', Err = None\<rparr>,
      \<lparr>URL = ''http://h/article/2'', Content = ''Table-driven tests...'', Err = None\<rparr>]
     = (''## http://h/article/1\<newline>\<newline>Goroutines...\<newline>\<newline>---\<newline>\<newline>## http://h/article/2\<newline>\<newline>Table-driven tests...'', 2)"
  by (simp add: consolidate_def strings_TrimSpace_def asciiSpace_def)


lemmas countSections_eval =
  countSections_def strings_HasPrefix_def newline_def strings_TrimSpace_def asciiSpace_def

lemma countSections_leading_space_example:
  "strings_Split '' ## x'' newline = ['' ## x''] \<and>
   \<not> strings_HasPrefix '' ## x'' ''## '' \<and>
   consolidate [\<lparr>URL = ''a'', Content = '' ## x'', Err = None\<rparr>]
     = (''## a\<newline>\<newline>## x'', 1) \<and>
   countSections ''## a\<newline>\<newline>## x'' = 2"
  by (simp add: consolidate_def countSections_eval)

text \<open>
  Claim C2 as it is stated fails: a forced call whose discovery returns the empty
  list performs discovery and then returns the error of no search results; the
  fetch phase is not entered.
\<close>

theorem Search_force_no_fetch_counterexample:
  "search_Search empty_env ''golang concurrency'' 5 (SearchEngine test_config) = Inr [] \<and>
   Search test_config empty_env warm_cache ''golang concurrency'' 5 True
     = (Inl (ErrEngineNoResults ''golang concurrency''), warm_cache,
        [EvSearch ''golang concurrency'' 5 ''google''])"
proof -
  have none: "search_Search empty_env ''golang concurrency'' 5 (SearchEngine test_config) = Inr []"
    by (simp add: empty_env_def)
  have "SearchEngine test_config = ''google''"
    by (simp add: test_config_def)
  then have "Search test_config empty_env warm_cache ''golang concurrency'' 5 True
     = (Inl (ErrEngineNoResults ''golang concurrency''), warm_cache,
        [EvSearch ''golang concurrency'' 5 ''google''])"
    by (simp add: Search_force Search_fetch_no_results [OF none])
  with none show ?thesis
    by (intro conjI)
qed

text \<open>The theorem of claim C2 at the run of the integration test, forced, over a
  cache with a fresh row for the query.\<close>

theorem Search_force_skips_cache_witness:
  "search_Search test_env ''golang concurrency'' 5 (SearchEngine test_config) = Inr test_results \<and>
   test_results \<noteq> [] \<and>
   Cache_Get warm_cache (now_read test_env) (queryHash ''golang concurrency'')
     = Inr (''cached'', True) \<and>
   EvScrape [''http://h/article/1'', ''http://h/article/2'']
     \<in> set (snd (snd (Search test_config test_env warm_cache ''golang concurrency'' 5 True))) \<and>
   fst (Search test_config test_env warm_cache ''golang concurrency'' 5 True)
     = Inr \<lparr>ResultContent = ''## http://h/article/1\<newline>\<newline>Goroutines...\<newline>\<newline>---\<newline>\<newline>## http://h/article/2\<newline>\<newline>Table-driven tests...'',
            ResultCount = 2, FromCache = False\<rparr>"
proof -
  have found: "search_Search test_env ''golang concurrency'' 5 (SearchEngine test_config)
                 = Inr test_results \<and> test_results \<noteq> []"
    by (simp add: test_env_def test_results_def)
  have warm: "Cache_Get warm_cache (now_read test_env) (queryHash ''golang concurrency'')
                = Inr (''cached'', True)"
    by (simp add: Cache_Get_def warm_cache_def test_env_def cacheTTL_def)
  from found Search_force_skips_cache
         [of test_config test_env warm_cache "''golang concurrency''" 5]
  have "EvScrape (map Result_URL test_results)
          \<in> set (snd (snd (Search test_config test_env warm_cache ''golang concurrency'' 5 True)))"
    by blast
  then have scraped: "EvScrape [''http://h/article/1'', ''http://h/article/2'']
     \<in> set (snd (snd (Search test_config test_env warm_cache ''golang concurrency'' 5 True)))"
    by (simp only: test_urls)
  have net: "network test_env = test_network" and db: "db_error warm_cache = None"
    by (simp_all add: test_env_def warm_cache_def)
  have doc: "fst (consolidate (Scrape (network test_env) (map Result_URL test_results))) \<noteq> []"
    by (simp add: net test_urls test_pages test_document)
  have "fst (Search test_config test_env warm_cache ''golang concurrency'' 5 True)
     = Inr \<lparr>ResultContent = ''## http://h/article/1\<newline>\<newline>Goroutines...\<newline>\<newline>---\<newline>\<newline>## http://h/article/2\<newline>\<newline>Table-driven tests...'',
            ResultCount = 2, FromCache = False\<rparr>"
    unfolding Search_force
      Search_fetch_stored [OF conjunct1 [OF found] conjunct2 [OF found] doc]
    by (simp add: Let_def db net test_urls test_pages test_document)
  with found warm scraped show ?thesis
    by blast
qed

text \<open>The theorem of claim C8 at a discovery that finds nothing.\<close>

theorem Search_no_candidates_fails_witness:
  "Cache_Get empty_cache (now_read empty_env) (queryHash ''golang concurrency'')
     = Inr ([], False) \<and>
   search_Search empty_env ''golang concurrency'' 5 (SearchEngine test_config) = Inr [] \<and>
   Search test_config empty_env empty_cache ''golang concurrency'' 5 False
     = (Inl (ErrEngineNoResults ''golang concurrency''), empty_cache,
        [EvCacheGet (queryHash ''golang concurrency''),
         EvSearch ''golang concurrency'' 5 ''google''])"
proof -
  have miss: "Cache_Get empty_cache (now_read empty_env) (queryHash ''golang concurrency'')
     = Inr ([], False)"
    by (simp add: Cache_Get_def empty_cache_def)
  have none: "search_Search empty_env ''golang concurrency'' 5 (SearchEngine test_config) = Inr []"
    by (simp add: empty_env_def)
  from miss none Search_no_candidates_fails
         [of False empty_cache empty_env "''golang concurrency''" 5 test_config]
  have "fst (Search test_config empty_env empty_cache ''golang concurrency'' 5 False)
          = Inl (ErrEngineNoResults ''golang concurrency'') \<and>
        fst (snd (Search test_config empty_env empty_cache ''golang concurrency'' 5 False))
          = empty_cache"
    by blast
  moreover have "snd (snd (Search test_config empty_env empty_cache ''golang concurrency'' 5 False))
     = [EvCacheGet (queryHash ''golang concurrency''), EvSearch ''golang concurrency'' 5 ''google'']"
  proof -
    have "SearchEngine test_config = ''google''"
      by (simp add: test_config_def)
    then show ?thesis
      by (simp add: Search_miss [OF miss] Search_fetch_no_results [OF none])
  qed
  ultimately have "Search test_config empty_env empty_cache ''golang concurrency'' 5 False
     = (Inl (ErrEngineNoResults ''golang concurrency''), empty_cache,
        [EvCacheGet (queryHash ''golang concurrency''),
         EvSearch ''golang concurrency'' 5 ''google''])"
    by (simp add: prod_eq_iff)
  with miss none show ?thesis
    by blast
qed




end
